theory Spec2Isabelle
  imports Complex_Main
begin

section \<open>GLONASS L1 C/A system parameters\<close>

text \<open>
  The header \<open>GLONASS_L1_CA.h\<close> declares constants only: physical constants, the framing sizes of the
  GNAV navigation message, and one bit-range table per named field of a string.
  A C++ \<open>int\<close> is modelled as \<open>int\<close> (every value below stays far inside 32 bits),
  a \<open>double\<close> by the real number its initialiser denotes.
\<close>

subsection \<open>Integer division of C++\<close>

text \<open>
  \<open>/\<close> on two \<open>int\<close> operands truncates towards zero. Both operands of the only
  division in the header are literals and the divisor is not zero.
\<close>

definition int_div :: "int \<Rightarrow> int \<Rightarrow> int" where
  "int_div a b = (if (a < 0) = (b < 0) then \<bar>a\<bar> div \<bar>b\<bar> else - (\<bar>a\<bar> div \<bar>b\<bar>))"

subsection \<open>Physical constants\<close>

text \<open>
  \<open>const double GLONASS_FLATTENING = 1/29825784;\<close>: the quotient of two \<open>int\<close>
  literals is computed in \<open>int\<close> and only then converted to \<open>double\<close>.
\<close>

definition GLONASS_FLATTENING :: real where
  "GLONASS_FLATTENING = real_of_int (int_div 1 29825784)"

subsection \<open>Navigation message demodulation and decoding\<close>

text \<open>
  \<open>GLONASS_CA_PREAMBLE\<close> is a macro for a brace-enclosed list of integer literals.
  \<open>GLONASS_CA_PREAMBLE_DURATION_S\<close> is the \<open>double\<close> written \<open>0.3\<close>; the
  model takes the decimal it is written as (the nearest \<open>double\<close> differs from it
  by less than \<open>2\<close> to the power \<open>-55\<close>, far less than any difference
  between the constants compared below).
\<close>

definition GLONASS_CA_PREAMBLE :: "int list" where
  "GLONASS_CA_PREAMBLE =
     [1, 1, 1, 1, 1, 0, 0, 0, 1, 1, 0, 1, 1, 1, 0, 1, 0, 1, 0, 0, 0, 0, 1, 0, 0, 1, 0, 1, 1, 0]"

definition GLONASS_CA_PREAMBLE_LENGTH_BITS :: int where
  "GLONASS_CA_PREAMBLE_LENGTH_BITS = 30"

definition GLONASS_CA_PREAMBLE_LENGTH_SYMBOLS :: int where
  "GLONASS_CA_PREAMBLE_LENGTH_SYMBOLS = 300"

definition GLONASS_CA_PREAMBLE_DURATION_S :: real where
  "GLONASS_CA_PREAMBLE_DURATION_S = 0.3"

definition GLONASS_CA_TELEMETRY_RATE_BITS_SECOND :: int where
  "GLONASS_CA_TELEMETRY_RATE_BITS_SECOND = 50"

definition GLONASS_CA_TELEMETRY_SYMBOLS_PER_BIT :: int where
  "GLONASS_CA_TELEMETRY_SYMBOLS_PER_BIT = 10"

definition GLONASS_CA_TELEMETRY_RATE_SYMBOLS_SECOND :: int where
  "GLONASS_CA_TELEMETRY_RATE_SYMBOLS_SECOND =
     GLONASS_CA_TELEMETRY_RATE_BITS_SECOND * GLONASS_CA_TELEMETRY_SYMBOLS_PER_BIT"

definition GLONASS_GNAV_FRAME_BITS :: int where
  "GLONASS_GNAV_FRAME_BITS = 1725"

definition GLONASS_GNAV_FRAME_SECONDS :: int where
  "GLONASS_GNAV_FRAME_SECONDS = 30"

definition GLONASS_GNAV_FRAME_MS :: int where
  "GLONASS_GNAV_FRAME_MS = 30000"

definition GLONASS_GNAV_STRING_BITS :: int where
  "GLONASS_GNAV_STRING_BITS = 115"

subsection \<open>GNAV navigation message structure: field positions\<close>

text \<open>
  Every field is declared as \<open>const std::vector<std::pair<int,int>> NAME({{start, length}})\<close>:
  a list of bit ranges, each a pair of the first bit position and the number of bits.
\<close>

type_synonym bit_range = "int \<times> int"

type_synonym field = "bit_range list"

text \<open>Common fields (declared under \<open>// COMMON FIELDS\<close>).\<close>

definition STRING_ID :: field where
  "STRING_ID = [(2, 4)]"

definition KX :: field where
  "KX = [(78, 8)]"

text \<open>String 1.\<close>

definition P1 :: field where
  "P1 = [(8, 2)]"

definition T_K :: field where
  "T_K = [(10, 12)]"

definition X_N_DOT :: field where
  "X_N_DOT = [(22, 24)]"

definition X_N_DOT_DOT :: field where
  "X_N_DOT_DOT = [(46, 5)]"

definition X_N :: field where
  "X_N = [(51, 27)]"

text \<open>String 2.\<close>

definition B_N :: field where
  "B_N = [(6, 3)]"

definition P2 :: field where
  "P2 = [(9, 1)]"

definition T_B :: field where
  "T_B = [(10, 7)]"

definition Y_N_DOT :: field where
  "Y_N_DOT = [(22, 24)]"

definition Y_N_DOT_DOT :: field where
  "Y_N_DOT_DOT = [(46, 5)]"

definition Y_N :: field where
  "Y_N = [(51, 27)]"

text \<open>
  String 3. The header declares the name \<open>L_N\<close> three times (strings 3, 5 and
  7, 9, 11, 13, 15); the three declarations are told apart here by a suffix.
\<close>

definition P3 :: field where
  "P3 = [(6, 1)]"

definition GAMMA_N :: field where
  "GAMMA_N = [(7, 11)]"

definition P :: field where
  "P = [(19, 2)]"

definition L_N_STRING_3 :: field where
  "L_N_STRING_3 = [(21, 1)]"

definition Z_N_DOT :: field where
  "Z_N_DOT = [(22, 24)]"

definition Z_N_DOT_DOT :: field where
  "Z_N_DOT_DOT = [(46, 5)]"

definition Z_N :: field where
  "Z_N = [(51, 27)]"

text \<open>String 4.\<close>

definition TAU_N :: field where
  "TAU_N = [(6, 22)]"

definition DELTA_TAU_N :: field where
  "DELTA_TAU_N = [(28, 5)]"

definition E_N :: field where
  "E_N = [(33, 5)]"

definition P4 :: field where
  "P4 = [(52, 1)]"

definition F_T :: field where
  "F_T = [(53, 4)]"

definition N_T :: field where
  "N_T = [(60, 11)]"

definition N :: field where
  "N = [(71, 5)]"

definition M :: field where
  "M = [(76, 2)]"

text \<open>String 5.\<close>

definition N_A :: field where
  "N_A = [(6, 11)]"

definition TAU_C :: field where
  "TAU_C = [(17, 32)]"

definition N_4 :: field where
  "N_4 = [(50, 5)]"

definition TAU_GPS :: field where
  "TAU_GPS = [(55, 22)]"

definition L_N_STRING_5 :: field where
  "L_N_STRING_5 = [(77, 1)]"

text \<open>Strings 6, 8, 10, 12, 14.\<close>

definition C_N :: field where
  "C_N = [(6, 1)]"

definition M_N_A :: field where
  "M_N_A = [(7, 2)]"

definition n_A :: field where
  "n_A = [(9, 5)]"

definition TAU_N_A :: field where
  "TAU_N_A = [(14, 10)]"

definition LAMBDA_N_A :: field where
  "LAMBDA_N_A = [(24, 21)]"

definition DELTA_I_N_A :: field where
  "DELTA_I_N_A = [(45, 18)]"

definition EPSILON_N_A :: field where
  "EPSILON_N_A = [(63, 15)]"

text \<open>Strings 7, 9, 11, 13, 15.\<close>

definition OMEGA_N_A :: field where
  "OMEGA_N_A = [(6, 16)]"

definition T_LAMBDA_N_A :: field where
  "T_LAMBDA_N_A = [(22, 21)]"

definition DELTA_T_N_A :: field where
  "DELTA_T_N_A = [(43, 22)]"

definition DELTA_T_DOT_N_A :: field where
  "DELTA_T_DOT_N_A = [(65, 7)]"

definition H_N_A :: field where
  "H_N_A = [(72, 5)]"

definition L_N_STRING_7_9_11_13_15 :: field where
  "L_N_STRING_7_9_11_13_15 = [(77, 1)]"

subsection \<open>The tables, one per string class\<close>

text \<open>
  The header groups the declarations by comments: the common fields, then the fields
  of string 1, 2, 3, 4, 5, of the strings 6, 8, 10, 12, 14 and of the strings
  7, 9, 11, 13, 15. A table lists the declarations of one group in the order of the
  header, each with the name it is declared under.
\<close>

type_synonym field_table = "(string \<times> field) list"

datatype string_class =
  STRING_1 | STRING_2 | STRING_3 | STRING_4 | STRING_5
  | STRING_6_8_10_12_14 | STRING_7_9_11_13_15

definition COMMON_FIELDS :: field_table where
  "COMMON_FIELDS = [(''STRING_ID'', STRING_ID), (''KX'', KX)]"

fun class_fields :: "string_class \<Rightarrow> field_table" where
  "class_fields STRING_1 =
     [(''P1'', P1), (''T_K'', T_K), (''X_N_DOT'', X_N_DOT), (''X_N_DOT_DOT'', X_N_DOT_DOT),
      (''X_N'', X_N)]"
| "class_fields STRING_2 =
     [(''B_N'', B_N), (''P2'', P2), (''T_B'', T_B), (''Y_N_DOT'', Y_N_DOT),
      (''Y_N_DOT_DOT'', Y_N_DOT_DOT), (''Y_N'', Y_N)]"
| "class_fields STRING_3 =
     [(''P3'', P3), (''GAMMA_N'', GAMMA_N), (''P'', P), (''L_N'', L_N_STRING_3),
      (''Z_N_DOT'', Z_N_DOT), (''Z_N_DOT_DOT'', Z_N_DOT_DOT), (''Z_N'', Z_N)]"
| "class_fields STRING_4 =
     [(''TAU_N'', TAU_N), (''DELTA_TAU_N'', DELTA_TAU_N), (''E_N'', E_N), (''P4'', P4),
      (''F_T'', F_T), (''N_T'', N_T), (''N'', N), (''M'', M)]"
| "class_fields STRING_5 =
     [(''N_A'', N_A), (''TAU_C'', TAU_C), (''N_4'', N_4), (''TAU_GPS'', TAU_GPS),
      (''L_N'', L_N_STRING_5)]"
| "class_fields STRING_6_8_10_12_14 =
     [(''C_N'', C_N), (''M_N_A'', M_N_A), (''n_A'', n_A), (''TAU_N_A'', TAU_N_A),
      (''LAMBDA_N_A'', LAMBDA_N_A), (''DELTA_I_N_A'', DELTA_I_N_A),
      (''EPSILON_N_A'', EPSILON_N_A)]"
| "class_fields STRING_7_9_11_13_15 =
     [(''OMEGA_N_A'', OMEGA_N_A), (''T_LAMBDA_N_A'', T_LAMBDA_N_A),
      (''DELTA_T_N_A'', DELTA_T_N_A), (''DELTA_T_DOT_N_A'', DELTA_T_DOT_N_A),
      (''H_N_A'', H_N_A), (''L_N'', L_N_STRING_7_9_11_13_15)]"

text \<open>The string numbers of a class, as its comment in the header lists them.\<close>

fun string_ids :: "string_class \<Rightarrow> int list" where
  "string_ids STRING_1 = [1]"
| "string_ids STRING_2 = [2]"
| "string_ids STRING_3 = [3]"
| "string_ids STRING_4 = [4]"
| "string_ids STRING_5 = [5]"
| "string_ids STRING_6_8_10_12_14 = [6, 8, 10, 12, 14]"
| "string_ids STRING_7_9_11_13_15 = [7, 9, 11, 13, 15]"

text \<open>The fields of a string of a class: the common ones, then the class's own.\<close>

definition string_fields :: "string_class \<Rightarrow> field_table" where
  "string_fields c = COMMON_FIELDS @ class_fields c"

definition string_ranges :: "string_class \<Rightarrow> bit_range list" where
  "string_ranges c = concat (map snd (string_fields c))"

text \<open>All declarations of the header, in its order.\<close>

definition ALL_DECLARATIONS :: field_table where
  "ALL_DECLARATIONS =
     COMMON_FIELDS @ class_fields STRING_1 @ class_fields STRING_2 @ class_fields STRING_3
     @ class_fields STRING_4 @ class_fields STRING_5 @ class_fields STRING_6_8_10_12_14
     @ class_fields STRING_7_9_11_13_15"

definition declared_as :: "string \<Rightarrow> field list" where
  "declared_as name = map snd (filter (\<lambda>d. fst d = name) ALL_DECLARATIONS)"

text \<open>
  The bit positions of a range \<open>(start, length)\<close>: \<open>start\<close> up to
  \<open>start + length - 1\<close>.
\<close>

definition last_bit :: "bit_range \<Rightarrow> int" where
  "last_bit r = fst r + snd r - 1"

definition bit_positions :: "bit_range \<Rightarrow> int set" where
  "bit_positions r = {fst r .. last_bit r}"

text \<open>The number of bits of a field: the lengths of its ranges, added up.\<close>

definition length_bits :: "field \<Rightarrow> int" where
  "length_bits f = sum_list (map snd f)"

subsection \<open>Reading and writing a bit range of a string\<close>

text \<open>
  Modelled from the spec: the String Decoder, which extracts the bit range of a field
  from a synchronized string, is code of the repository that is not among its sources
  here (the header holds the tables only). The spec (sections 3 and 4.3) makes a
  RawString an ordered sequence of 115 bits, gives bit positions as 1-based offsets
  into it, and has the decoder extract the bit range of each table entry, with the
  most significant bit first. A string is a list of bits, position \<open>p\<close> being
  element \<open>p - 1\<close>; \<open>bits_value\<close> reads a bit sequence as an unsigned number,
  most significant bit first.
\<close>

definition bits_value :: "bool list \<Rightarrow> nat" where
  "bits_value bs = foldl (\<lambda>v b. 2 * v + (if b then 1 else 0)) 0 bs"

text \<open>
  Modelled from the spec: the \<open>n\<close> bits that encode the unsigned number \<open>v\<close>,
  most significant bit first (the encoding of the round trip of section 8; no encoder
  is among the sources).
\<close>

primrec value_bits :: "nat \<Rightarrow> nat \<Rightarrow> bool list" where
  "value_bits 0 v = []"
| "value_bits (Suc n) v = value_bits n (v div 2) @ [odd v]"

text \<open>
  Modelled from the spec: extracting the bit range \<open>(start, length)\<close> of a string
  (section 4.3: "for each entry extracts the bit range"), as an unsigned number.
\<close>

definition extract_bits :: "bool list \<Rightarrow> bit_range \<Rightarrow> nat" where
  "extract_bits s r = bits_value (take (nat (snd r)) (drop (nat (fst r - 1)) s))"

text \<open>
  Modelled from the spec: encoding a value into the bit range \<open>(start, length)\<close> of
  a string (section 8, round trip on field tables); the bits before and after the
  range are kept.
\<close>

definition insert_bits :: "bool list \<Rightarrow> bit_range \<Rightarrow> nat \<Rightarrow> bool list" where
  "insert_bits s r v =
     take (nat (fst r - 1)) s @ value_bits (nat (snd r)) v
     @ drop (nat (fst r - 1) + nat (snd r)) s"

section \<open>Properties\<close>

subsection \<open>Unfolding the tables\<close>

lemmas field_defs =
  STRING_ID_def KX_def P1_def T_K_def X_N_DOT_def X_N_DOT_DOT_def X_N_def
  B_N_def P2_def T_B_def Y_N_DOT_def Y_N_DOT_DOT_def Y_N_def
  P3_def GAMMA_N_def P_def L_N_STRING_3_def Z_N_DOT_def Z_N_DOT_DOT_def Z_N_def
  TAU_N_def DELTA_TAU_N_def E_N_def P4_def F_T_def N_T_def N_def M_def
  N_A_def TAU_C_def N_4_def TAU_GPS_def L_N_STRING_5_def
  C_N_def M_N_A_def n_A_def TAU_N_A_def LAMBDA_N_A_def DELTA_I_N_A_def EPSILON_N_A_def
  OMEGA_N_A_def T_LAMBDA_N_A_def DELTA_T_N_A_def DELTA_T_DOT_N_A_def H_N_A_def
  L_N_STRING_7_9_11_13_15_def

lemmas table_defs = string_fields_def COMMON_FIELDS_def

lemma string_ranges_simps:
  "string_ranges STRING_1 = [(2, 4), (78, 8), (8, 2), (10, 12), (22, 24), (46, 5), (51, 27)]"
  "string_ranges STRING_2 = [(2, 4), (78, 8), (6, 3), (9, 1), (10, 7), (22, 24), (46, 5), (51, 27)]"
  "string_ranges STRING_3 =
     [(2, 4), (78, 8), (6, 1), (7, 11), (19, 2), (21, 1), (22, 24), (46, 5), (51, 27)]"
  "string_ranges STRING_4 =
     [(2, 4), (78, 8), (6, 22), (28, 5), (33, 5), (52, 1), (53, 4), (60, 11), (71, 5), (76, 2)]"
  "string_ranges STRING_5 = [(2, 4), (78, 8), (6, 11), (17, 32), (50, 5), (55, 22), (77, 1)]"
  "string_ranges STRING_6_8_10_12_14 =
     [(2, 4), (78, 8), (6, 1), (7, 2), (9, 5), (14, 10), (24, 21), (45, 18), (63, 15)]"
  "string_ranges STRING_7_9_11_13_15 =
     [(2, 4), (78, 8), (6, 16), (22, 21), (43, 22), (65, 7), (72, 5), (77, 1)]"
  by (simp_all add: string_ranges_def table_defs field_defs)

text \<open>Two ranges share no bit exactly when one is empty or one ends before the other starts.\<close>

lemma bit_positions_disjoint_iff:
  "bit_positions (s1, l1) \<inter> bit_positions (s2, l2) = {}
     \<longleftrightarrow> l1 \<le> 0 \<or> l2 \<le> 0 \<or> s1 + l1 \<le> s2 \<or> s2 + l2 \<le> s1"
  by (auto simp add: bit_positions_def last_bit_def Int_atLeastAtMost)

lemma ranges_pairwise_disjoint:
  "sorted_wrt (\<lambda>a b. bit_positions a \<inter> bit_positions b = {}) (string_ranges c)"
  by (cases c) (simp_all add: string_ranges_simps bit_positions_disjoint_iff)

lemma ranges_bounded:
  "list_all (\<lambda>r. 1 \<le> fst r \<and> 1 \<le> snd r \<and> last_bit r \<le> 85) (string_ranges c)"
  by (cases c) (simp_all add: string_ranges_simps last_bit_def)

lemma ranges_fit:
  assumes "r \<in> set (string_ranges c)"
  shows "nat (fst r - 1) + nat (snd r) \<le> nat GLONASS_GNAV_STRING_BITS"
proof -
  from assms ranges_bounded [of c]
  have "1 \<le> fst r \<and> 1 \<le> snd r \<and> last_bit r \<le> 85"
    by (simp add: list_all_iff)
  then show ?thesis
    unfolding last_bit_def GLONASS_GNAV_STRING_BITS_def by arith
qed

subsection \<open>Fields of one string\<close>

text \<open>
  C1. For every string class (1; 2; 3; 4; 5; 6, 8, 10, 12, 14; 7, 9, 11, 13, 15) the
  bit ranges [start, start + length - 1] of the fields of that class (the common
  fields included) are pairwise disjoint, every range ends at or before bit 85, and
  the positions are 1-based positions inside the 115-bit string: every range starts
  at bit 1 or later, has at least one bit and ends inside the string.
\<close>

theorem field_ranges_disjoint_and_bounded:
  "(\<forall>i j. i < j \<and> j < length (string_ranges c) \<longrightarrow>
      bit_positions (string_ranges c ! i) \<inter> bit_positions (string_ranges c ! j) = {})
   \<and> (\<forall>r \<in> set (string_ranges c).
        1 \<le> fst r \<and> 1 \<le> snd r \<and> last_bit r \<le> 85 \<and> last_bit r \<le> GLONASS_GNAV_STRING_BITS)"
proof (intro conjI allI impI ballI)
  fix i j
  assume "i < j \<and> j < length (string_ranges c)"
  with ranges_pairwise_disjoint [of c]
  show "bit_positions (string_ranges c ! i) \<inter> bit_positions (string_ranges c ! j) = {}"
    by (simp add: sorted_wrt_iff_nth_less)
next
  fix r
  assume "r \<in> set (string_ranges c)"
  with ranges_bounded [of c]
  have b: "1 \<le> fst r \<and> 1 \<le> snd r \<and> last_bit r \<le> 85"
    by (simp add: list_all_iff)
  from b show "1 \<le> fst r" by simp
  from b show "1 \<le> snd r" by simp
  from b show "last_bit r \<le> 85" by simp
  from b show "last_bit r \<le> GLONASS_GNAV_STRING_BITS"
    by (simp add: GLONASS_GNAV_STRING_BITS_def)
qed

text \<open>
  In string 5, \<open>N_A\<close> (bits 6 to 16) and \<open>TAU_C\<close> (bits 17 to 48) are the third and
  fourth range; they share no bit, and \<open>TAU_C\<close> ends before bit 85.
\<close>

theorem field_ranges_disjoint_and_bounded_witness:
  "(2::nat) < 3 \<and> 3 < length (string_ranges STRING_5)
   \<and> string_ranges STRING_5 ! 2 = (6, 11) \<and> string_ranges STRING_5 ! 3 = (17, 32)
   \<and> bit_positions (6, 11) \<inter> bit_positions (17, 32) = {}
   \<and> (17, 32) \<in> set (string_ranges STRING_5) \<and> last_bit (17, 32) \<le> 85"
  using field_ranges_disjoint_and_bounded [of STRING_5, THEN conjunct1, rule_format, of 2 3]
    field_ranges_disjoint_and_bounded [of STRING_5, THEN conjunct2, rule_format, of "(17, 32)"]
  by (simp add: string_ranges_simps)

subsection \<open>The time fields of string 5\<close>

text \<open>
  The statement that string 5 has an entry for each of \<open>N_4\<close>, \<open>N_T\<close>, \<open>TAU_C\<close>
  and \<open>TAU_GPS\<close> fails: the table of string 5 has no entry named \<open>N_T\<close>.
\<close>

theorem string_5_has_no_N_T:
  "\<not> (map_of (string_fields STRING_5) ''N_4'' \<noteq> None
      \<and> map_of (string_fields STRING_5) ''N_T'' \<noteq> None
      \<and> map_of (string_fields STRING_5) ''TAU_C'' \<noteq> None
      \<and> map_of (string_fields STRING_5) ''TAU_GPS'' \<noteq> None)"
  by (simp add: table_defs)

text \<open>
  C2 (amended). String 5 carries three of the four time fields: \<open>N_4\<close>, \<open>TAU_C\<close>
  and \<open>TAU_GPS\<close> each have a bit range in the table of string 5. \<open>N_T\<close> has none
  there (the day number of string 5 is \<open>N_A\<close>): string 4 is the only class with
  an entry \<open>N_T\<close> (bits 60 to 70). The four fields therefore need string 4 and
  string 5.
\<close>

theorem string_5_time_fields:
  "map_of (string_fields STRING_5) ''N_4'' = Some [(50, 5)]
   \<and> map_of (string_fields STRING_5) ''TAU_C'' = Some [(17, 32)]
   \<and> map_of (string_fields STRING_5) ''TAU_GPS'' = Some [(55, 22)]
   \<and> map_of (string_fields STRING_5) ''N_T'' = None
   \<and> map_of (string_fields STRING_5) ''N_A'' = Some [(6, 11)]
   \<and> map_of (string_fields STRING_4) ''N_T'' = Some [(60, 11)]
   \<and> (map_of (string_fields c) ''N_T'' \<noteq> None \<longleftrightarrow> c = STRING_4)"
  by (cases c) (simp_all add: table_defs field_defs)

subsection \<open>The check bits\<close>

text \<open>
  C3. Every string class has the common field \<open>KX\<close> of exactly 8 check bits, the
  bits 78 to 85, and in every class no other field has a bit in that range.
\<close>

theorem check_bits_disjoint_from_data:
  "map_of (string_fields c) ''KX'' = Some KX \<and> KX = [(78, 8)] \<and> length_bits KX = 8
   \<and> bit_positions (78, 8) = {78..85} \<and> card (bit_positions (78, 8)) = 8
   \<and> (\<forall>(n, f) \<in> set (string_fields c). n \<noteq> ''KX'' \<longrightarrow>
         (\<forall>r \<in> set f. bit_positions r \<inter> bit_positions (78, 8) = {}))"
  by (cases c) (simp_all add: table_defs field_defs length_bits_def bit_positions_disjoint_iff,
      simp_all add: bit_positions_def last_bit_def)

text \<open>In string 5, \<open>TAU_GPS\<close> (bits 55 to 76) has no bit among the check bits.\<close>

theorem check_bits_disjoint_from_data_witness:
  "(''TAU_GPS'', [(55, 22)]) \<in> set (string_fields STRING_5) \<and> ''TAU_GPS'' \<noteq> ''KX''
   \<and> (55, 22) \<in> set [(55, 22)]
   \<and> bit_positions (55, 22) \<inter> bit_positions (78, 8) = {}"
  using check_bits_disjoint_from_data [of STRING_5, THEN conjunct2, THEN conjunct2,
      THEN conjunct2, THEN conjunct2, THEN conjunct2, THEN bspec, of "(''TAU_GPS'', [(55, 22)])"]
  by (simp add: table_defs field_defs)

subsection \<open>Dispatch on the string number\<close>

lemma string_ids_iff:
  "i \<in> set (string_ids k) \<longleftrightarrow>
     (i = 1 \<and> k = STRING_1) \<or> (i = 2 \<and> k = STRING_2) \<or> (i = 3 \<and> k = STRING_3)
     \<or> (i = 4 \<and> k = STRING_4) \<or> (i = 5 \<and> k = STRING_5)
     \<or> (i \<in> {6, 8, 10, 12, 14} \<and> k = STRING_6_8_10_12_14)
     \<or> (i \<in> {7, 9, 11, 13, 15} \<and> k = STRING_7_9_11_13_15)"
  by (cases k) auto

lemma id_cases:
  fixes sid :: int
  assumes "1 \<le> sid" and "sid \<le> 15"
  shows "sid = 1 \<or> sid = 2 \<or> sid = 3 \<or> sid = 4 \<or> sid = 5 \<or> sid = 6 \<or> sid = 7
    \<or> sid = 8 \<or> sid = 9 \<or> sid = 10 \<or> sid = 11 \<or> sid = 12 \<or> sid = 13 \<or> sid = 14
    \<or> sid = 15"
  using assms by arith

lemma every_id_has_one_class:
  fixes i :: int
  assumes "1 \<le> i" and "i \<le> 15"
  shows "\<exists>!k. i \<in> set (string_ids k)"
proof -
  from id_cases [OF assms] have "\<exists>k. i \<in> set (string_ids k)"
    unfolding string_ids_iff by (elim disjE) simp_all
  moreover have "k = k'" if "i \<in> set (string_ids k)" and "i \<in> set (string_ids k')" for k k'
    using that unfolding string_ids_iff by (elim disjE conjE insertE emptyE) simp_all
  ultimately show ?thesis by blast
qed

text \<open>
  C4. The field \<open>STRING_ID\<close> is common to all string classes at one position: it is
  declared once, at offset 2 with length 4, and is a field of every class. The string
  numbers of every class lie in 1..15, every number in 1..15 fits in the 4 bits of
  the field and belongs to exactly one class, so the string number selects the class.
\<close>

theorem string_id_dispatch:
  "STRING_ID = [(2, 4)]
   \<and> length_bits STRING_ID = 4
   \<and> map_of (string_fields c) ''STRING_ID'' = Some STRING_ID
   \<and> declared_as ''STRING_ID'' = [STRING_ID]
   \<and> (\<forall>i \<in> set (string_ids c). 1 \<le> i \<and> i \<le> 15)
   \<and> (\<forall>i. 1 \<le> i \<and> i \<le> 15 \<longrightarrow>
         i < 2 ^ nat (length_bits STRING_ID) \<and> (\<exists>!k. i \<in> set (string_ids k)))"
proof -
  have a: "STRING_ID = [(2, 4)]"
    by (simp add: STRING_ID_def)
  have b: "length_bits STRING_ID = 4"
    by (simp add: STRING_ID_def length_bits_def)
  have m: "map_of (string_fields c) ''STRING_ID'' = Some STRING_ID"
    by (simp add: table_defs)
  have d: "declared_as ''STRING_ID'' = [STRING_ID]"
    by (simp add: declared_as_def ALL_DECLARATIONS_def COMMON_FIELDS_def)
  have e: "\<forall>i \<in> set (string_ids c). 1 \<le> i \<and> i \<le> 15"
    by (cases c) simp_all
  have f: "\<forall>i. 1 \<le> i \<and> i \<le> 15 \<longrightarrow>
         i < 2 ^ nat (length_bits STRING_ID) \<and> (\<exists>!k. i \<in> set (string_ids k))"
    using every_id_has_one_class by (simp add: b)
  show ?thesis
    by (rule conjI [OF a conjI [OF b conjI [OF m conjI [OF d conjI [OF e f]]]]])
qed

text \<open>String number 14 fits in the field and belongs to the class 6, 8, 10, 12, 14.\<close>

theorem string_id_dispatch_witness:
  "(1::int) \<le> 14 \<and> (14::int) \<le> 15 \<and> (14::int) < 2 ^ nat (length_bits STRING_ID)
   \<and> 14 \<in> set (string_ids STRING_6_8_10_12_14)"
  using string_id_dispatch [of STRING_6_8_10_12_14, THEN conjunct2, THEN conjunct2,
      THEN conjunct2, THEN conjunct2, THEN conjunct2, rule_format, of 14]
  by simp

subsection \<open>Framing sizes\<close>

text \<open>
  C5. The framing size constants agree with the unit sizes: a string has
  30 time-mark bits + 85 data bits = 115 bits, the preamble (time mark) has 30 bits,
  and a frame has 15 strings, that is 15 * 115 = 1725 bits.
\<close>

theorem framing_sizes:
  "GLONASS_GNAV_STRING_BITS = 30 + 85
   \<and> GLONASS_GNAV_STRING_BITS = 115
   \<and> GLONASS_CA_PREAMBLE_LENGTH_BITS = 30
   \<and> GLONASS_GNAV_STRING_BITS = GLONASS_CA_PREAMBLE_LENGTH_BITS + 85
   \<and> GLONASS_GNAV_FRAME_BITS = 15 * GLONASS_GNAV_STRING_BITS
   \<and> GLONASS_GNAV_FRAME_BITS = 1725"
  by (simp add: GLONASS_GNAV_STRING_BITS_def GLONASS_CA_PREAMBLE_LENGTH_BITS_def
      GLONASS_GNAV_FRAME_BITS_def)

subsection \<open>Frame timing\<close>

text \<open>
  Sending the 1725 bits of a frame at 50 bits per second does not take the declared
  30 seconds.
\<close>

theorem frame_bits_over_bit_rate_is_not_frame_seconds:
  "real_of_int GLONASS_GNAV_FRAME_BITS / real_of_int GLONASS_CA_TELEMETRY_RATE_BITS_SECOND
     \<noteq> real_of_int GLONASS_GNAV_FRAME_SECONDS"
  by (simp add: GLONASS_GNAV_FRAME_BITS_def GLONASS_CA_TELEMETRY_RATE_BITS_SECOND_def
      GLONASS_GNAV_FRAME_SECONDS_def)

text \<open>
  C6 (amended). \<open>GLONASS_GNAV_FRAME_MS\<close> is 1000 times \<open>GLONASS_GNAV_FRAME_SECONDS\<close>.
  Sending the 1725 bits of a frame at the declared 50 bits per second would take
  34.5 seconds, not the declared 30. The declared 30 seconds are the time of 15
  strings, each made of 85 data bits at 50 bits per second and a time mark of the
  declared \<open>GLONASS_CA_PREAMBLE_DURATION_S\<close>.
\<close>

theorem frame_timing:
  "GLONASS_GNAV_FRAME_MS = 1000 * GLONASS_GNAV_FRAME_SECONDS
   \<and> real_of_int GLONASS_GNAV_FRAME_BITS / real_of_int GLONASS_CA_TELEMETRY_RATE_BITS_SECOND
       = 34.5
   \<and> 15 * (85 / real_of_int GLONASS_CA_TELEMETRY_RATE_BITS_SECOND
            + GLONASS_CA_PREAMBLE_DURATION_S)
       = real_of_int GLONASS_GNAV_FRAME_SECONDS"
  by (simp add: GLONASS_GNAV_FRAME_BITS_def GLONASS_CA_TELEMETRY_RATE_BITS_SECOND_def
      GLONASS_GNAV_FRAME_SECONDS_def GLONASS_GNAV_FRAME_MS_def GLONASS_CA_PREAMBLE_DURATION_S_def)

subsection \<open>The preamble\<close>

text \<open>
  The declared duration of the preamble is not its length in symbols divided by the
  symbol rate, neither as a quotient of reals (0.6) nor as the truncating quotient of
  the two \<open>int\<close> constants (0).
\<close>

theorem preamble_duration_is_not_symbols_over_rate:
  "GLONASS_CA_PREAMBLE_DURATION_S
     \<noteq> real_of_int GLONASS_CA_PREAMBLE_LENGTH_SYMBOLS
         / real_of_int GLONASS_CA_TELEMETRY_RATE_SYMBOLS_SECOND
   \<and> GLONASS_CA_PREAMBLE_DURATION_S
     \<noteq> real_of_int (int_div GLONASS_CA_PREAMBLE_LENGTH_SYMBOLS
                             GLONASS_CA_TELEMETRY_RATE_SYMBOLS_SECOND)"
  by (simp add: GLONASS_CA_PREAMBLE_DURATION_S_def GLONASS_CA_PREAMBLE_LENGTH_SYMBOLS_def
      GLONASS_CA_TELEMETRY_RATE_SYMBOLS_SECOND_def GLONASS_CA_TELEMETRY_RATE_BITS_SECOND_def
      GLONASS_CA_TELEMETRY_SYMBOLS_PER_BIT_def int_div_def)

text \<open>
  C7 (amended). \<open>GLONASS_CA_PREAMBLE\<close> lists exactly 30 values, each 0 or 1, as many
  as \<open>GLONASS_CA_PREAMBLE_LENGTH_BITS\<close>; \<open>GLONASS_CA_PREAMBLE_LENGTH_SYMBOLS\<close> is
  \<open>GLONASS_CA_PREAMBLE_LENGTH_BITS\<close> times \<open>GLONASS_CA_TELEMETRY_SYMBOLS_PER_BIT\<close>,
  that is 300. The symbol rate is 500 per second, so 300 symbols over the symbol rate
  are 0.6 seconds; the declared \<open>GLONASS_CA_PREAMBLE_DURATION_S\<close> is 0.3, half of
  that quotient.
\<close>

theorem preamble_constants:
  "length GLONASS_CA_PREAMBLE = 30 \<and> set GLONASS_CA_PREAMBLE \<subseteq> {0, 1}
   \<and> int (length GLONASS_CA_PREAMBLE) = GLONASS_CA_PREAMBLE_LENGTH_BITS
   \<and> GLONASS_CA_PREAMBLE_LENGTH_SYMBOLS
       = GLONASS_CA_PREAMBLE_LENGTH_BITS * GLONASS_CA_TELEMETRY_SYMBOLS_PER_BIT
   \<and> GLONASS_CA_PREAMBLE_LENGTH_SYMBOLS = 300
   \<and> GLONASS_CA_TELEMETRY_RATE_SYMBOLS_SECOND = 500
   \<and> real_of_int GLONASS_CA_PREAMBLE_LENGTH_SYMBOLS
       / real_of_int GLONASS_CA_TELEMETRY_RATE_SYMBOLS_SECOND = 0.6
   \<and> GLONASS_CA_PREAMBLE_DURATION_S = 0.3
   \<and> GLONASS_CA_PREAMBLE_DURATION_S
       = real_of_int GLONASS_CA_PREAMBLE_LENGTH_SYMBOLS
         / (2 * real_of_int GLONASS_CA_TELEMETRY_RATE_SYMBOLS_SECOND)"
  by (simp add: GLONASS_CA_PREAMBLE_def GLONASS_CA_PREAMBLE_DURATION_S_def
      GLONASS_CA_PREAMBLE_LENGTH_SYMBOLS_def GLONASS_CA_PREAMBLE_LENGTH_BITS_def
      GLONASS_CA_TELEMETRY_RATE_SYMBOLS_SECOND_def GLONASS_CA_TELEMETRY_RATE_BITS_SECOND_def
      GLONASS_CA_TELEMETRY_SYMBOLS_PER_BIT_def)

subsection \<open>Round trip through a bit range\<close>

lemma bits_value_snoc:
  "bits_value (bs @ [b]) = 2 * bits_value bs + (if b then 1 else 0)"
  by (simp add: bits_value_def)

lemma length_value_bits: "length (value_bits n v) = n"
  by (induction n arbitrary: v) simp_all

lemma bits_value_value_bits: "bits_value (value_bits n v) = v mod 2 ^ n"
proof (induction n arbitrary: v)
  case 0
  show ?case by (simp add: bits_value_def)
next
  case (Suc n)
  have "v mod (2 * 2 ^ n) = 2 * (v div 2 mod 2 ^ n) + v mod 2"
    by (rule mod_mult2_eq)
  moreover have "(if odd v then 1 else 0) = v mod 2"
    by (simp add: odd_iff_mod_2_eq_one)
  ultimately show ?case
    using Suc.IH [of "v div 2"] by (simp add: bits_value_snoc)
qed

lemma extract_insert:
  assumes "nat (fst r - 1) \<le> length s" and "v < 2 ^ nat (snd r)"
  shows "extract_bits (insert_bits s r v) r = v"
proof -
  let ?p = "nat (fst r - 1)" and ?n = "nat (snd r)"
  have "length (take ?p s) = ?p"
    using assms(1) by simp
  then have "drop ?p (insert_bits s r v) = value_bits ?n v @ drop (?p + ?n) s"
    by (simp add: insert_bits_def)
  then have "take ?n (drop ?p (insert_bits s r v)) = value_bits ?n v"
    by (simp add: length_value_bits)
  then show ?thesis
    using assms(2) by (simp add: extract_bits_def bits_value_value_bits)
qed

lemma length_insert:
  assumes "nat (fst r - 1) + nat (snd r) \<le> length s"
  shows "length (insert_bits s r v) = length s"
  using assms by (simp add: insert_bits_def length_value_bits)

text \<open>
  C8. Round trip on the field tables: for every field of every string class and every
  bit range (start, length) of it, writing an unsigned value that fits in length bits
  into that range of a 115-bit string and reading the range back gives the value
  exactly; the string keeps its 115 bits.
\<close>

theorem field_round_trip:
  "\<forall>(n, f) \<in> set (string_fields c). \<forall>r \<in> set f. \<forall>s v.
      length s = nat GLONASS_GNAV_STRING_BITS \<and> v < 2 ^ nat (snd r) \<longrightarrow>
        extract_bits (insert_bits s r v) r = v \<and> length (insert_bits s r v) = length s"
proof (intro ballI allI impI, clarify)
  fix n f r and s :: "bool list" and v :: nat
  assume nf: "(n, f) \<in> set (string_fields c)" and r: "r \<in> set f"
    and len: "length s = nat GLONASS_GNAV_STRING_BITS" and v: "v < 2 ^ nat (snd r)"
  from nf r have "r \<in> set (string_ranges c)"
    by (force simp add: string_ranges_def)
  from ranges_fit [OF this] len have fit: "nat (fst r - 1) + nat (snd r) \<le> length s"
    by simp
  then have "nat (fst r - 1) \<le> length s"
    by simp
  from extract_insert [OF this v] length_insert [OF fit]
  show "extract_bits (insert_bits s r v) r = v \<and> length (insert_bits s r v) = length s"
    by simp
qed

text \<open>
  The value 7 written into \<open>N_4\<close> of string 5 (bits 50 to 54) of a string of 115
  one-bits is read back as 7.
\<close>

theorem field_round_trip_witness:
  "(''N_4'', [(50, 5)]) \<in> set (string_fields STRING_5) \<and> (50, 5) \<in> set [(50, 5)]
   \<and> length (replicate 115 True) = nat GLONASS_GNAV_STRING_BITS \<and> (7::nat) < 2 ^ nat 5
   \<and> extract_bits (insert_bits (replicate 115 True) (50, 5) 7) (50, 5) = 7"
  using field_round_trip [of STRING_5, THEN bspec, of "(''N_4'', [(50, 5)])"]
  by (simp add: table_defs field_defs GLONASS_GNAV_STRING_BITS_def)

subsection \<open>Names of the declarations\<close>

text \<open>
  C9. A field name should stand for one bit range. The header declares \<open>L_N\<close> three
  times, for string 3 at bit 21 and for string 5 and the strings 7, 9, 11, 13, 15 at
  bit 77: two different ranges under one name. Every other name is declared once.
\<close>

theorem L_N_declared_with_two_ranges:
  "declared_as ''L_N'' = [L_N_STRING_3, L_N_STRING_5, L_N_STRING_7_9_11_13_15]
   \<and> L_N_STRING_3 = [(21, 1)] \<and> L_N_STRING_5 = [(77, 1)]
   \<and> L_N_STRING_7_9_11_13_15 = [(77, 1)]
   \<and> L_N_STRING_3 \<noteq> L_N_STRING_5
   \<and> distinct (filter (\<lambda>n. n \<noteq> ''L_N'') (map fst ALL_DECLARATIONS))"
  by (simp add: declared_as_def ALL_DECLARATIONS_def COMMON_FIELDS_def
      L_N_STRING_3_def L_N_STRING_5_def L_N_STRING_7_9_11_13_15_def)

subsection \<open>The flattening constant\<close>

text \<open>
  C10. \<open>GLONASS_FLATTENING\<close>, written 1/29825784, is exactly 0.0: the division is
  an integer division, which truncates to 0 before the conversion to double.
\<close>

theorem flattening_is_zero:
  "int_div 1 29825784 = 0 \<and> GLONASS_FLATTENING = 0"
  by (simp add: GLONASS_FLATTENING_def int_div_def)

end
